theory Spec2Isabelle
  imports Main "HOL-Library.Word"
begin

unbundle bit_operations_syntax

section \<open>Runtime values shared by the modules\<close>

text \<open>
  A \<^verbatim>\<open>Uint8Array\<close> is a list of bytes. A JavaScript string is an Isabelle string, read
  as the UTF-8 bytes of the text; a JavaScript \<^verbatim>\<open>number\<close> that holds a count or a
  timestamp is an integer. Exceptions of the runtime are values of \<open>js_error\<close>.
\<close>

type_synonym byte = "8 word"
type_synonym Uint8Array = "byte list"

datatype js_error = RangeError | SyntaxError | InvalidCharacterError | UnhandledError

text \<open>
  A plain JavaScript object with string keys is an association list in property order
  with one entry per key. \<open>obj_set\<close> is the assignment \<^verbatim>\<open>obj[key] = value\<close> on an object
  created by a literal \<^verbatim>\<open>{}\<close>: an existing key keeps its place, a new key goes last,
  and the key \<^verbatim>\<open>__proto__\<close> reaches the prototype setter and creates no property.
\<close>

type_synonym 'v js_object = "(string \<times> 'v) list"

fun obj_update :: "string \<Rightarrow> 'v \<Rightarrow> 'v js_object \<Rightarrow> 'v js_object" where
  "obj_update k v [] = [(k, v)]"
| "obj_update k v ((k', v') # kvs) =
     (if k = k' then (k, v) # kvs else (k', v') # obj_update k v kvs)"

definition obj_set :: "string \<Rightarrow> 'v \<Rightarrow> 'v js_object \<Rightarrow> 'v js_object" where
  "obj_set k v obj = (if k = ''__proto__'' then obj else obj_update k v obj)"

definition obj_get :: "'v js_object \<Rightarrow> string \<Rightarrow> 'v option" where
  "obj_get obj k = map_of obj k"

subsection \<open>Defaults\<close>

text \<open>
  \<^verbatim>\<open>x || d\<close> on an optional number or string: the default replaces \<^verbatim>\<open>undefined\<close>, the
  number \<open>0\<close> and the empty string.
\<close>

definition or_number :: "int option \<Rightarrow> int \<Rightarrow> int" where
  "or_number x d = (case x of None \<Rightarrow> d | Some n \<Rightarrow> if n = 0 then d else n)"


subsection \<open>Numbers as text\<close>

text \<open>
  \<^verbatim>\<open>Number.prototype.toString(radix)\<close> and \<^verbatim>\<open>String(n)\<close> on an integer below \<open>10 ^ 21\<close>
  in magnitude: the digits in the radix, lower-case, with a minus sign for a negative number.
\<close>

definition digit_char :: "int \<Rightarrow> char" where
  "digit_char d = char_of (nat (if d < 10 then 48 + d else 87 + d))"

function digits_of :: "int \<Rightarrow> int \<Rightarrow> string" where
  "digits_of radix n =
     (if radix < 2 \<or> n < radix then [digit_char n]
      else digits_of radix (n div radix) @ [digit_char (n mod radix)])"
  by pat_completeness auto
termination
  by (relation "measure (\<lambda>(radix, n). nat n)") (auto intro: int_div_less_self)

declare digits_of.simps [simp del]

definition Number_toString :: "int \<Rightarrow> int \<Rightarrow> string" where
  "Number_toString radix n =
     (if n < 0 then CHR ''-'' # digits_of radix (- n) else digits_of radix n)"

definition padStart :: "nat \<Rightarrow> char \<Rightarrow> string \<Rightarrow> string" where
  "padStart n c s = replicate (n - length s) c @ s"

section \<open>JSON values and JSON text\<close>

text \<open>
  The codec hands every open-ended value (payload, state, metadata and attribute values)
  to \<^verbatim>\<open>JSON.stringify\<close> and \<^verbatim>\<open>JSON.parse\<close>. Both belong to the runtime; they are modelled
  here on the values a JSON text can denote. Numbers are integers (\<open>JNum\<close>); a number that
  a text writes with a fraction or an exponent is kept as its literal (\<open>JFrac\<close>), so that
  the parser accepts the texts the runtime accepts, but no arithmetic of doubles is
  modelled. An object is the list of its entries in property order (the runtime's placing
  of integer-like keys first is not modelled).
\<close>

datatype json =
    JNull
  | JBool bool
  | JNum int
  | JFrac string
  | JStr string
  | JArr "json list"
  | JObj "(string \<times> json) list"

subsection \<open>JSON.stringify\<close>

text \<open>
  The compact text, without indentation. In a string the quote, the backslash and the
  control characters are escaped and every other byte is written as it is.
\<close>

definition code_of :: "char \<Rightarrow> nat" where
  "code_of c = of_char c"

definition hex4 :: "nat \<Rightarrow> string" where
  "hex4 n = [digit_char (int (n div 4096 mod 16)), digit_char (int (n div 256 mod 16)),
             digit_char (int (n div 16 mod 16)), digit_char (int (n mod 16))]"

definition quote_char :: "char \<Rightarrow> string" where
  "quote_char c =
     (if c = CHR 0x22 then [CHR 0x5C, CHR 0x22]
      else if c = CHR 0x5C then [CHR 0x5C, CHR 0x5C]
      else if c = CHR 0x08 then [CHR 0x5C, CHR ''b'']
      else if c = CHR 0x0C then [CHR 0x5C, CHR ''f'']
      else if c = CHR 0x0A then [CHR 0x5C, CHR ''n'']
      else if c = CHR 0x0D then [CHR 0x5C, CHR ''r'']
      else if c = CHR 0x09 then [CHR 0x5C, CHR ''t'']
      else if code_of c < 32 then [CHR 0x5C, CHR ''u''] @ hex4 (code_of c)
      else [c])"

definition quote :: "string \<Rightarrow> string" where
  "quote s = [CHR 0x22] @ concat (map quote_char s) @ [CHR 0x22]"

fun stringify :: "json \<Rightarrow> string"
  and stringify_elems :: "json list \<Rightarrow> string"
  and stringify_members :: "(string \<times> json) list \<Rightarrow> string" where
  "stringify JNull = ''null''"
| "stringify (JBool b) = (if b then ''true'' else ''false'')"
| "stringify (JNum n) = Number_toString 10 n"
| "stringify (JFrac lit) = lit"
| "stringify (JStr s) = quote s"
| "stringify (JArr vs) = ''['' @ stringify_elems vs @ '']''"
| "stringify (JObj kvs) = ''{'' @ stringify_members kvs @ ''}''"
| "stringify_elems [] = []"
| "stringify_elems [v] = stringify v"
| "stringify_elems (v # w # vs) = stringify v @ '','' @ stringify_elems (w # vs)"
| "stringify_members [] = []"
| "stringify_members [(k, v)] = quote k @ '':'' @ stringify v"
| "stringify_members ((k, v) # kv # kvs) =
     quote k @ '':'' @ stringify v @ '','' @ stringify_members (kv # kvs)"

subsection \<open>JSON.parse\<close>

text \<open>
  A recursive-descent parser for the JSON grammar: white space between tokens, the three
  literals, numbers, strings with their escapes (a \<^verbatim>\<open>\u\<close> escape yields the UTF-8 bytes of
  its code point, a surrogate pair those of the combined code point), arrays and objects.
  \<open>None\<close> is the SyntaxError of the runtime. A repeated key overwrites the earlier entry
  in place, as property definition does.
\<close>

definition is_ws :: "char \<Rightarrow> bool" where
  "is_ws c \<longleftrightarrow> c = CHR '' '' \<or> c = CHR 0x09 \<or> c = CHR 0x0A \<or> c = CHR 0x0D"

definition skip_ws :: "string \<Rightarrow> string" where
  "skip_ws s = dropWhile is_ws s"

definition is_digit :: "char \<Rightarrow> bool" where
  "is_digit c \<longleftrightarrow> 48 \<le> code_of c \<and> code_of c \<le> 57"

definition digits_value :: "string \<Rightarrow> int" where
  "digits_value ds = foldl (\<lambda>a d. 10 * a + (int (code_of d) - 48)) 0 ds"

definition hexval :: "char \<Rightarrow> nat option" where
  "hexval c =
     (let n = code_of c
      in if 48 \<le> n \<and> n \<le> 57 then Some (n - 48)
         else if 97 \<le> n \<and> n \<le> 102 then Some (n - 87)
         else if 65 \<le> n \<and> n \<le> 70 then Some (n - 55)
         else None)"

definition parse_hex4 :: "string \<Rightarrow> (nat \<times> string) option" where
  "parse_hex4 s =
     (case s of
        a # b # c # d # r \<Rightarrow>
          (case (hexval a, hexval b, hexval c, hexval d) of
             (Some x, Some y, Some z, Some w) \<Rightarrow> Some (((x * 16 + y) * 16 + z) * 16 + w, r)
           | _ \<Rightarrow> None)
      | _ \<Rightarrow> None)"

definition utf8_of_code :: "nat \<Rightarrow> string" where
  "utf8_of_code n =
     (if n < 0x80 then [char_of n]
      else if n < 0x800 then [char_of (0xC0 + n div 64), char_of (0x80 + n mod 64)]
      else if n < 0x10000 then
        [char_of (0xE0 + n div 4096), char_of (0x80 + n div 64 mod 64), char_of (0x80 + n mod 64)]
      else
        [char_of (0xF0 + n div 262144), char_of (0x80 + n div 4096 mod 64),
         char_of (0x80 + n div 64 mod 64), char_of (0x80 + n mod 64)])"

definition parse_low_surrogate :: "string \<Rightarrow> (nat \<times> string) option" where
  "parse_low_surrogate s =
     (case s of
        a # b # r \<Rightarrow>
          if a = CHR 0x5C \<and> b = CHR ''u'' then
            (case parse_hex4 r of
               Some (lo, r') \<Rightarrow> if 0xDC00 \<le> lo \<and> lo < 0xE000 then Some (lo, r') else None
             | None \<Rightarrow> None)
          else None
      | _ \<Rightarrow> None)"

definition parse_escape :: "string \<Rightarrow> (string \<times> string) option" where
  "parse_escape s =
     (case s of
        [] \<Rightarrow> None
      | e # r \<Rightarrow>
          if e = CHR 0x22 \<or> e = CHR 0x5C \<or> e = CHR ''/'' then Some ([e], r)
          else if e = CHR ''b'' then Some ([CHR 0x08], r)
          else if e = CHR ''f'' then Some ([CHR 0x0C], r)
          else if e = CHR ''n'' then Some ([CHR 0x0A], r)
          else if e = CHR ''r'' then Some ([CHR 0x0D], r)
          else if e = CHR ''t'' then Some ([CHR 0x09], r)
          else if e = CHR ''u'' then
            (case parse_hex4 r of
               None \<Rightarrow> None
             | Some (hi, r1) \<Rightarrow>
                 if 0xD800 \<le> hi \<and> hi < 0xDC00 then
                   (case parse_low_surrogate r1 of
                      Some (lo, r2) \<Rightarrow>
                        Some (utf8_of_code (0x10000 + (hi - 0xD800) * 0x400 + (lo - 0xDC00)), r2)
                    | None \<Rightarrow> Some (utf8_of_code hi, r1))
                 else Some (utf8_of_code hi, r1))
          else None)"

lemma parse_hex4_length: "parse_hex4 s = Some (n, r) \<Longrightarrow> length r < length s"
  by (auto simp: parse_hex4_def split: list.splits option.splits)

lemma parse_low_surrogate_length: "parse_low_surrogate s = Some (n, r) \<Longrightarrow> length r < length s"
  by (auto simp: parse_low_surrogate_def split: list.splits option.splits if_splits
      dest: parse_hex4_length)

lemma parse_escape_length: "parse_escape s = Some (bs, r) \<Longrightarrow> length r < length s"
  by (auto simp: parse_escape_def split: list.splits option.splits if_splits
      dest!: parse_hex4_length parse_low_surrogate_length)

function parse_string_body :: "string \<Rightarrow> (string \<times> string) option" where
  "parse_string_body [] = None"
| "parse_string_body (c # r) =
     (if c = CHR 0x22 then Some ([], r)
      else if c = CHR 0x5C then
        (case parse_escape r of
           None \<Rightarrow> None
         | Some (bs, r') \<Rightarrow>
             (case parse_string_body r' of
                None \<Rightarrow> None
              | Some (str, r'') \<Rightarrow> Some (bs @ str, r'')))
      else if code_of c < 32 then None
      else (case parse_string_body r of
              None \<Rightarrow> None
            | Some (str, r'') \<Rightarrow> Some (c # str, r'')))"
  by pat_completeness auto
termination
  by (relation "measure length") (auto dest: parse_escape_length)

declare parse_string_body.simps [simp del]

definition parse_fraction :: "string \<Rightarrow> (string \<times> string) option" where
  "parse_fraction s =
     (case s of
        c # r \<Rightarrow>
          if c = CHR ''.'' then
            (if takeWhile is_digit r = [] then None
             else Some (c # takeWhile is_digit r, dropWhile is_digit r))
          else Some ([], s)
      | [] \<Rightarrow> Some ([], s))"

definition parse_exponent :: "string \<Rightarrow> (string \<times> string) option" where
  "parse_exponent s =
     (case s of
        c # r \<Rightarrow>
          if c = CHR ''e'' \<or> c = CHR ''E'' then
            (let sgn_txt = (case r of d # r' \<Rightarrow> if d = CHR ''+'' \<or> d = CHR ''-'' then [d] else [] | [] \<Rightarrow> []);
                 r1 = drop (length sgn_txt) r
             in if takeWhile is_digit r1 = [] then None
                else Some (c # sgn_txt @ takeWhile is_digit r1, dropWhile is_digit r1))
          else Some ([], s)
      | [] \<Rightarrow> Some ([], s))"

definition int_digits :: "string \<Rightarrow> string" where
  "int_digits s =
     (case s of [] \<Rightarrow> [] | c # r \<Rightarrow> if c = CHR ''0'' then [c] else takeWhile is_digit s)"

definition parse_unsigned :: "bool \<Rightarrow> string \<Rightarrow> (json \<times> string) option" where
  "parse_unsigned neg s =
     (let ds = int_digits s
      in if ds = [] then None
         else case parse_fraction (drop (length ds) s) of
                None \<Rightarrow> None
              | Some (fr, s3) \<Rightarrow>
                  (case parse_exponent s3 of
                     None \<Rightarrow> None
                   | Some (ex, s4) \<Rightarrow>
                       if fr = [] \<and> ex = []
                       then Some (JNum (if neg then - digits_value ds else digits_value ds), s4)
                       else Some (JFrac ((if neg then ''-'' else []) @ ds @ fr @ ex), s4)))"

definition parse_number :: "string \<Rightarrow> (json \<times> string) option" where
  "parse_number s =
     (case s of
        [] \<Rightarrow> None
      | c # r \<Rightarrow> if c = CHR ''-'' then parse_unsigned True r else parse_unsigned False s)"

text \<open>
  The three mutually recursive parsers take fuel, one unit per call. Every call reads at
  least one character before it calls another, so a text of \<open>n\<close> characters never needs more
  than \<open>n + 1\<close> units, which is what \<open>JSON_parse\<close> supplies.
\<close>

definition build_object :: "(string \<times> json) list \<Rightarrow> (string \<times> json) list" where
  "build_object kvs = foldl (\<lambda>obj (k, v). obj_update k v obj) [] kvs"

fun parse_value :: "nat \<Rightarrow> string \<Rightarrow> (json \<times> string) option"
  and parse_elems :: "nat \<Rightarrow> string \<Rightarrow> (json list \<times> string) option"
  and parse_members :: "nat \<Rightarrow> string \<Rightarrow> ((string \<times> json) list \<times> string) option" where
  "parse_value 0 s = None"
| "parse_value (Suc fuel) s =
     (case skip_ws s of
        [] \<Rightarrow> None
      | c # r \<Rightarrow>
          if c = CHR ''['' then
            (case skip_ws r of
               [] \<Rightarrow> None
             | c' # r' \<Rightarrow>
                 if c' = CHR '']'' then Some (JArr [], r')
                 else (case parse_elems fuel r of
                         None \<Rightarrow> None
                       | Some (vs, r'') \<Rightarrow> Some (JArr vs, r'')))
          else if c = CHR ''{'' then
            (case skip_ws r of
               [] \<Rightarrow> None
             | c' # r' \<Rightarrow>
                 if c' = CHR ''}'' then Some (JObj [], r')
                 else (case parse_members fuel r of
                         None \<Rightarrow> None
                       | Some (kvs, r'') \<Rightarrow> Some (JObj (build_object kvs), r'')))
          else if c = CHR 0x22 then
            (case parse_string_body r of
               None \<Rightarrow> None
             | Some (str, r') \<Rightarrow> Some (JStr str, r'))
          else if c = CHR ''-'' \<or> is_digit c then parse_number (c # r)
          else if take 4 (c # r) = ''true'' then Some (JBool True, drop 4 (c # r))
          else if take 5 (c # r) = ''false'' then Some (JBool False, drop 5 (c # r))
          else if take 4 (c # r) = ''null'' then Some (JNull, drop 4 (c # r))
          else None)"
| "parse_elems 0 s = None"
| "parse_elems (Suc fuel) s =
     (case parse_value fuel s of
        None \<Rightarrow> None
      | Some (v, r) \<Rightarrow>
          (case skip_ws r of
             [] \<Rightarrow> None
           | c # r' \<Rightarrow>
               if c = CHR '','' then
                 (case parse_elems fuel r' of
                    None \<Rightarrow> None
                  | Some (vs, r'') \<Rightarrow> Some (v # vs, r''))
               else if c = CHR '']'' then Some ([v], r')
               else None))"
| "parse_members 0 s = None"
| "parse_members (Suc fuel) s =
     (case skip_ws s of
        [] \<Rightarrow> None
      | q # r \<Rightarrow>
          if q \<noteq> CHR 0x22 then None
          else (case parse_string_body r of
                  None \<Rightarrow> None
                | Some (k, r1) \<Rightarrow>
                    (case skip_ws r1 of
                       [] \<Rightarrow> None
                     | c # r2 \<Rightarrow>
                         if c \<noteq> CHR '':'' then None
                         else (case parse_value fuel r2 of
                                 None \<Rightarrow> None
                               | Some (v, r3) \<Rightarrow>
                                   (case skip_ws r3 of
                                      [] \<Rightarrow> None
                                    | c' # r4 \<Rightarrow>
                                        if c' = CHR '','' then
                                          (case parse_members fuel r4 of
                                             None \<Rightarrow> None
                                           | Some (kvs, r5) \<Rightarrow> Some ((k, v) # kvs, r5))
                                        else if c' = CHR ''}'' then Some ([(k, v)], r4)
                                        else None)))))"

definition JSON_parse :: "string \<Rightarrow> json option" where
  "JSON_parse s =
     (case parse_value (Suc (length s)) s of
        None \<Rightarrow> None
      | Some (v, r) \<Rightarrow> if skip_ws r = [] then Some v else None)"


section \<open>Text encoding\<close>

text \<open>
  \<^verbatim>\<open>TextEncoder.encode\<close> yields the UTF-8 bytes of a string and \<^verbatim>\<open>TextDecoder.decode\<close> reads
  them back. Strings are kept as their UTF-8 bytes here, so both are the byte-wise
  conversion; what the decoder does to malformed input (replacement by U+FFFD) and to a
  leading byte order mark (removal) is not modelled.
\<close>

definition TextEncoder_encode :: "string \<Rightarrow> Uint8Array" where
  "TextEncoder_encode s = map (\<lambda>c. of_nat (code_of c)) s"

definition TextDecoder_decode :: "Uint8Array \<Rightarrow> string" where
  "TextDecoder_decode bs = map (\<lambda>b. char_of (unat b)) bs"

section \<open>Event serialization (serialization/event-serializer.ts)\<close>

text \<open>
  The enum \<^verbatim>\<open>EventPriority\<close> is its ordinal. An optional property is an \<open>option\<close>: \<open>None\<close>
  is \<^verbatim>\<open>undefined\<close>. The fields of the wire records carry a prefix where the two sides
  share a name.
\<close>

definition PRIORITY_NORMAL :: int where "PRIORITY_NORMAL = 0"
definition PRIORITY_LOW :: int where "PRIORITY_LOW = 1"
definition PRIORITY_HIGH :: int where "PRIORITY_HIGH = 2"
definition PRIORITY_IMMEDIATE :: int where "PRIORITY_IMMEDIATE = 3"

record ProtoComponentRef =
  pc_componentId :: string
  pc_componentPath :: "string list"
  pc_componentType :: string

record ProtoSpaceEvent =
  pe_topic :: string
  pe_source :: ProtoComponentRef
  pe_payloadJson :: Uint8Array
  pe_timestamp :: int
  pe_priority :: int
  pe_metadata :: "string js_object"
  pe_sync :: bool

record ComponentRef =
  componentId :: string
  componentPath :: "string list option"
  componentType :: "string option"

record SpaceEvent =
  topic :: string
  source :: ComponentRef
  payload :: "json option"
  timestamp :: int
  priority :: "string option"
  sync :: "bool option"
  metadata :: "json js_object option"

definition priorityToProto :: "string option \<Rightarrow> int" where
  "priorityToProto p =
     (if p = Some ''immediate'' then PRIORITY_IMMEDIATE
      else if p = Some ''high'' then PRIORITY_HIGH
      else if p = Some ''low'' then PRIORITY_LOW
      else PRIORITY_NORMAL)"

definition protoToPriority :: "int \<Rightarrow> string" where
  "protoToPriority p =
     (if p = PRIORITY_IMMEDIATE then ''immediate''
      else if p = PRIORITY_HIGH then ''high''
      else if p = PRIORITY_LOW then ''low''
      else ''normal'')"

definition componentRefToProto :: "ComponentRef \<Rightarrow> ProtoComponentRef" where
  "componentRefToProto ref =
     \<lparr> pc_componentId = componentId ref,
       pc_componentPath = (case componentPath ref of None \<Rightarrow> [] | Some p \<Rightarrow> p),
       pc_componentType = (case componentType ref of None \<Rightarrow> [] | Some t \<Rightarrow> t) \<rparr>"

definition protoToComponentRef :: "ProtoComponentRef \<Rightarrow> ComponentRef" where
  "protoToComponentRef proto =
     \<lparr> componentId = pc_componentId proto,
       componentPath = Some (pc_componentPath proto),
       componentType = (if pc_componentType proto \<noteq> [] then Some (pc_componentType proto) else None) \<rparr>"

text \<open>
  The two loops over \<^verbatim>\<open>Object.entries\<close> shared by events, facets and attachments. Encoding
  stores a string value as it is and any other value as its JSON text; decoding parses
  each text and keeps the text itself as a string when parsing throws.
\<close>

definition value_text :: "json \<Rightarrow> string" where
  "value_text v = (case v of JStr s \<Rightarrow> s | _ \<Rightarrow> stringify v)"

definition text_value :: "string \<Rightarrow> json" where
  "text_value t = (case JSON_parse t of Some v \<Rightarrow> v | None \<Rightarrow> JStr t)"

definition encode_entries :: "json js_object \<Rightarrow> string js_object" where
  "encode_entries entries = foldl (\<lambda>obj (key, v). obj_set key (value_text v) obj) [] entries"

definition decode_entries :: "string js_object \<Rightarrow> json js_object" where
  "decode_entries entries = foldl (\<lambda>obj (key, t). obj_set key (text_value t) obj) [] entries"

text \<open>
  The guards around the loops: an object that is not set encodes to no entries, and the
  facet and attachment decoders set the aspect only when the wire object has entries.
\<close>

definition encode_optional :: "json js_object option \<Rightarrow> string js_object" where
  "encode_optional x = (case x of None \<Rightarrow> [] | Some m \<Rightarrow> encode_entries m)"


definition eventToProto :: "SpaceEvent \<Rightarrow> ProtoSpaceEvent" where
  "eventToProto event =
     \<lparr> pe_topic = topic event,
       pe_source = componentRefToProto (source event),
       pe_payloadJson =
         (case payload event of
            None \<Rightarrow> []
          | Some p \<Rightarrow> TextEncoder_encode (stringify p)),
       pe_timestamp = timestamp event,
       pe_priority = priorityToProto (priority event),
       pe_metadata = encode_optional (metadata event),
       pe_sync = (case sync event of None \<Rightarrow> False | Some b \<Rightarrow> b) \<rparr>"

definition parse_or_empty :: "Uint8Array \<Rightarrow> json option" where
  "parse_or_empty bytes =
     (if 0 < length bytes
      then (case JSON_parse (TextDecoder_decode bytes) of
              Some v \<Rightarrow> Some v
            | None \<Rightarrow> Some (JObj []))
      else None)"

definition protoToEvent :: "ProtoSpaceEvent \<Rightarrow> SpaceEvent" where
  "protoToEvent proto =
     (let md = decode_entries (pe_metadata proto)
      in \<lparr> topic = pe_topic proto,
           source = protoToComponentRef (pe_source proto),
           payload = parse_or_empty (pe_payloadJson proto),
           timestamp = pe_timestamp proto,
           priority = Some (protoToPriority (pe_priority proto)),
           sync = (if pe_sync proto then Some True else None),
           metadata = (if 0 < length md then Some md else None) \<rparr>)"

section \<open>Facet serialization (serialization/facet-serializer.ts)\<close>

text \<open>The wire form of an attachment, shared with the attachment handler.\<close>

record ProtoAttachment =
  pa_id :: string
  pa_contentType :: string
  pa_inlineData :: "Uint8Array option"
  pa_url :: "string option"
  pa_sizeBytes :: int
  pa_filename :: string
  pa_metadata :: "string js_object"





subsection \<open>Base64 text (\<^verbatim>\<open>atob\<close>)\<close>





subsection \<open>Attachments\<close>



subsection \<open>Facets\<close>


definition opt_list :: "'a list option \<Rightarrow> 'a list" where
  "opt_list x = (case x of None \<Rightarrow> [] | Some xs \<Rightarrow> xs)"

lemma size_opt_list_member [termination_simp]:
  "x \<in> set (opt_list xs) \<Longrightarrow> f x < Suc (size_option (size_list f) xs)"
proof (cases xs)
  case None
  assume "x \<in> set (opt_list xs)"
  with None show ?thesis by (simp add: opt_list_def)
next
  case (Some ys)
  assume "x \<in> set (opt_list xs)"
  with Some have "x \<in> set ys" by (simp add: opt_list_def)
  then have "f x \<le> size_list f ys" by (rule size_list_estimation') simp
  with Some show ?thesis by simp
qed





section \<open>Values that survive the wire\<close>

text \<open>
  The keys of an object whose entries the loops copy one to one: distinct, and none of
  them \<^verbatim>\<open>__proto__\<close>. A value is stable when decoding its encoded text gives it back: a
  JSON value other than a string, or a string that is not itself JSON text.
\<close>

definition plain_keys :: "'v js_object \<Rightarrow> bool" where
  "plain_keys obj \<longleftrightarrow> distinct (map fst obj) \<and> ''__proto__'' \<notin> set (map fst obj)"








section \<open>Attachment handling (serialization/attachment-handler.ts)\<close>

definition MAX_INLINE_SIZE :: nat where
  "MAX_INLINE_SIZE = 1024 * 1024"

definition shouldInlineAttachment :: "nat \<Rightarrow> bool" where
  "shouldInlineAttachment size_n \<longleftrightarrow> size_n \<le> MAX_INLINE_SIZE"

text \<open>
  \<^verbatim>\<open>generateAttachmentId\<close> reads the clock and the random generator; both readings are
  arguments here: \<open>now\<close> is \<^verbatim>\<open>Date.now()\<close> and \<open>rnd36\<close> is the text of
  \<^verbatim>\<open>Math.random().toString(36)\<close>.
\<close>

definition generateAttachmentId :: "int \<Rightarrow> string \<Rightarrow> string" where
  "generateAttachmentId now rnd36 =
     ''att-'' @ Number_toString 10 now @ ''-'' @ take 9 (drop 2 rnd36)"

definition createAttachment ::
  "int \<Rightarrow> string \<Rightarrow> Uint8Array \<Rightarrow> string \<Rightarrow> string option \<Rightarrow> string js_object option
   \<Rightarrow> ProtoAttachment" where
  "createAttachment now rnd36 data contentType filename meta =
     (let bytes = data;
          attachment = \<lparr> pa_id = generateAttachmentId now rnd36,
                         pa_contentType = contentType,
                         pa_inlineData = None,
                         pa_url = None,
                         pa_sizeBytes = int (length bytes),
                         pa_filename = (case filename of None \<Rightarrow> '''' | Some f \<Rightarrow> f),
                         pa_metadata = (case meta of None \<Rightarrow> [] | Some m \<Rightarrow> m) \<rparr>
      in if shouldInlineAttachment (length bytes)
         then attachment\<lparr> pa_inlineData := Some bytes \<rparr>
         else attachment\<lparr> pa_metadata :=
                obj_set ''originalSize'' (Number_toString 10 (int (length bytes)))
                  (obj_set ''requiresUpload'' ''true'' (pa_metadata attachment)) \<rparr>)"

subsection \<open>Chunk reassembly\<close>

text \<open>
  \<^verbatim>\<open>TypedArray.prototype.set\<close> copies the source into the target at the offset and throws
  a RangeError when the source does not fit.
\<close>

definition Uint8Array_set :: "Uint8Array \<Rightarrow> Uint8Array \<Rightarrow> nat \<Rightarrow> js_error + Uint8Array" where
  "Uint8Array_set target src offset =
     (if length target < offset + length src then Inl RangeError
      else Inr (take offset target @ src @ drop (offset + length src) target))"

fun assemble_loop :: "Uint8Array list \<Rightarrow> Uint8Array \<Rightarrow> nat \<Rightarrow> js_error + Uint8Array" where
  "assemble_loop [] result offset = Inr result"
| "assemble_loop (chunk # chunks) result offset =
     (case Uint8Array_set result chunk offset of
        Inl e \<Rightarrow> Inl e
      | Inr result' \<Rightarrow> assemble_loop chunks result' (offset + length chunk))"

definition assembleChunks :: "Uint8Array list \<Rightarrow> js_error + Uint8Array" where
  "assembleChunks chunks =
     (let totalLength = foldl (\<lambda>sum chunk. sum + length chunk) 0 chunks;
          result = replicate totalLength 0
      in assemble_loop chunks result 0)"

subsection \<open>Checksum\<close>

text \<open>
  The accumulator \<^verbatim>\<open>hash\<close> is a JavaScript number. \<^verbatim>\<open>hash ^= data[i]\<close> converts both
  operands to 32-bit signed integers and yields one; \<^verbatim>\<open>hash * 16777619\<close> is a product of
  doubles, that is the exact product rounded to the nearest value with a 53-bit significand
  (ties to the even significand); \<^verbatim>\<open>>>> 0\<close> reduces the integer modulo \<open>2 ^ 32\<close>.
\<close>

function ulp_exp :: "int \<Rightarrow> nat" where
  "ulp_exp m = (if m < 2 ^ 53 then 0 else Suc (ulp_exp (m div 2)))"
  by pat_completeness auto
termination
  by (relation "measure nat") auto

declare ulp_exp.simps [simp del]

definition number_of_int :: "int \<Rightarrow> int" where
  "number_of_int x =
     (let m = \<bar>x\<bar>;
          e = ulp_exp m;
          q = m div 2 ^ e;
          r = m mod 2 ^ e;
          q' = (if 2 ^ e < 2 * r \<or> (2 * r = 2 ^ e \<and> odd q) then q + 1 else q)
      in sgn x * (q' * 2 ^ e))"

definition js_mul :: "int \<Rightarrow> int \<Rightarrow> int" where
  "js_mul a b = number_of_int (a * b)"

definition ToInt32 :: "int \<Rightarrow> 32 word" where
  "ToInt32 x = word_of_int x"

definition js_xor :: "int \<Rightarrow> int \<Rightarrow> int" where
  "js_xor a b = sint (ToInt32 a XOR ToInt32 b)"

definition ToUint32 :: "int \<Rightarrow> int" where
  "ToUint32 x = x mod 2 ^ 32"

definition checksum_step :: "int \<Rightarrow> byte \<Rightarrow> int" where
  "checksum_step hash b = ToUint32 (js_mul (js_xor hash (uint b)) 16777619)"

definition calculateChecksum :: "Uint8Array \<Rightarrow> string" where
  "calculateChecksum data =
     padStart 8 (CHR ''0'') (Number_toString 16 (foldl checksum_step 2166136261 data))"

definition verifyChecksum :: "Uint8Array \<Rightarrow> string \<Rightarrow> bool" where
  "verifyChecksum data expectedChecksum \<longleftrightarrow> calculateChecksum data = expectedChecksum"

text \<open>
  The checksum as the specification words it: a 32-bit accumulator seeded with
  \<open>0x811C9DC5\<close>; each byte is XORed into it and the result multiplied by \<open>0x01000193\<close>,
  masked to 32 bits.
\<close>

definition spec_checksum :: "Uint8Array \<Rightarrow> 32 word" where
  "spec_checksum data = foldl (\<lambda>h b. (h XOR ucast b) * 0x01000193) 0x811C9DC5 data"

definition spec_checksum_text :: "Uint8Array \<Rightarrow> string" where
  "spec_checksum_text data = padStart 8 (CHR ''0'') (Number_toString 16 (uint (spec_checksum data)))"

definition zero_bytes :: "nat \<Rightarrow> Uint8Array" where
  "zero_bytes n = replicate n 0"

section \<open>Client session (client.ts)\<close>

text \<open>
  The client is a record of the fields of the class. What the client does to the outside
  (notifications through \<^verbatim>\<open>emit\<close>, calls of \<^verbatim>\<open>connect\<close>, timer sleeps, cancelling the
  stream, closing the transport) is appended to \<open>trace\<close> in program order. Console output
  is left out. The class extends \<^verbatim>\<open>EventEmitter\<close>; of the emitter's own state the client
  keeps the number of listeners registered for the \<^verbatim>\<open>error\<close> event, which decides whether
  emitting that event throws.
\<close>

datatype effect = Emit string | ConnectCall | Sleep int | StreamCancel | ClientClose

record ConnectomeClientConfig =
  cfg_host :: string
  cfg_port :: "int option"
  cfg_clientId :: string
  cfg_reconnectInterval :: "int option"
  cfg_maxReconnectAttempts :: "int option"

record ClientSettings =
  host :: string
  port :: int
  clientId :: string
  reconnectInterval :: int
  maxReconnectAttempts :: int

record ConnectomeClient =
  config :: ClientSettings
  client :: "unit option"
  connected :: bool
  reconnecting :: bool
  reconnectAttempts :: int
  subscriptionStream :: "nat option"
  errorListeners :: nat
  trace :: "effect list"

definition new_ConnectomeClient :: "ConnectomeClientConfig \<Rightarrow> ConnectomeClient" where
  "new_ConnectomeClient cfg =
     \<lparr> config = \<lparr> host = cfg_host cfg,
                   port = or_number (cfg_port cfg) 50051,
                   clientId = cfg_clientId cfg,
                   reconnectInterval = or_number (cfg_reconnectInterval cfg) 5000,
                   maxReconnectAttempts = or_number (cfg_maxReconnectAttempts cfg) (- 1) \<rparr>,
       client = None,
       connected = False,
       reconnecting = False,
       reconnectAttempts = 0,
       subscriptionStream = None,
       errorListeners = 0,
       trace = [] \<rparr>"

text \<open>
  \<^verbatim>\<open>EventEmitter.on\<close> (alias \<^verbatim>\<open>addListener\<close>), called by the owner of the client, and
  \<^verbatim>\<open>EventEmitter.emit\<close>. Emitting \<^verbatim>\<open>error\<close> while no listener is registered for it throws
  the error and notifies nobody; every other emission calls the listeners, which is
  recorded in the trace. Listeners are taken to return normally. The constructor registers
  no listener.
\<close>

definition addListener :: "string \<Rightarrow> ConnectomeClient \<Rightarrow> ConnectomeClient" where
  "addListener name s =
     (if name = ''error'' then s\<lparr> errorListeners := errorListeners s + 1 \<rparr> else s)"

definition emit :: "string \<Rightarrow> ConnectomeClient \<Rightarrow> js_error + ConnectomeClient" where
  "emit name s =
     (if name = ''error'' \<and> errorListeners s = 0 then Inl UnhandledError
      else Inr (s\<lparr> trace := trace s @ [Emit name] \<rparr>))"

text \<open>
  What the transport answers to one call of \<^verbatim>\<open>connect\<close>: loading the protocol
  definition fails, \<^verbatim>\<open>waitForReady\<close> reports an error, or the channel is ready. The
  result of \<open>connect\<close> is \<open>Inl\<close> when the promise is not fulfilled, with the state reached.
\<close>

datatype connect_result = ProtoLoadError | WaitError | Ready

definition connect :: "connect_result \<Rightarrow> ConnectomeClient \<Rightarrow> ConnectomeClient + ConnectomeClient" where
  "connect r s =
     (let s0 = s\<lparr> trace := trace s @ [ConnectCall] \<rparr>
      in case r of
           ProtoLoadError \<Rightarrow> Inl s0
         | WaitError \<Rightarrow> Inl (s0\<lparr> client := Some () \<rparr>)
         | Ready \<Rightarrow>
             (let s1 = s0\<lparr> client := Some (), connected := True, reconnectAttempts := 0 \<rparr>
              in case emit ''connected'' s1 of
                   Inr s2 \<Rightarrow> Inr s2
                 | Inl e \<Rightarrow> Inl s1))"

definition disconnect :: "ConnectomeClient \<Rightarrow> ConnectomeClient" where
  "disconnect s =
     (let s1 = (if subscriptionStream s \<noteq> None
                then s\<lparr> trace := trace s @ [StreamCancel], subscriptionStream := None \<rparr>
                else s);
          s2 = (if client s1 \<noteq> None
                then s1\<lparr> trace := trace s1 @ [ClientClose], client := None \<rparr>
                else s1)
      in case emit ''disconnected'' (s2\<lparr> connected := False \<rparr>) of
           Inr s3 \<Rightarrow> s3
         | Inl e \<Rightarrow> s2\<lparr> connected := False \<rparr>)"

text \<open>
  One pass through the body of the \<^verbatim>\<open>while\<close> loop of \<^verbatim>\<open>attemptReconnect\<close>, entered with
  the loop condition already tested: it returns from the function, or it ends in the sleep
  after a failed attempt, from where the loop condition is tested again. \<open>Threw\<close> is
  the state in which an exception left the code. The \<^verbatim>\<open>try\<close> block of the loop covers
  the call of \<^verbatim>\<open>connect\<close> and the emission of \<^verbatim>\<open>reconnected\<close>.
\<close>

datatype 'a progress = Returned 'a | Running 'a | Threw 'a

definition reconnect_body :: "connect_result \<Rightarrow> ConnectomeClient \<Rightarrow> ConnectomeClient progress" where
  "reconnect_body r s =
     (let maxAttempts = maxReconnectAttempts (config s)
      in if 0 \<le> maxAttempts \<and> maxAttempts \<le> reconnectAttempts s
         then (case emit ''reconnect_failed'' (s\<lparr> reconnecting := False \<rparr>) of
                 Inr s' \<Rightarrow> Returned s'
               | Inl e \<Rightarrow> Threw (s\<lparr> reconnecting := False \<rparr>))
         else case connect r (s\<lparr> reconnectAttempts := reconnectAttempts s + 1 \<rparr>) of
                Inr s' \<Rightarrow>
                  (case emit ''reconnected'' (s'\<lparr> reconnecting := False \<rparr>) of
                     Inr s'' \<Rightarrow> Returned s''
                   | Inl e \<Rightarrow>
                       Running (s'\<lparr> reconnecting := False,
                                   trace := trace s' @ [Sleep (reconnectInterval (config s'))] \<rparr>))
              | Inl s' \<Rightarrow> Running (s'\<lparr> trace := trace s' @ [Sleep (reconnectInterval (config s'))] \<rparr>))"

text \<open>
  The loop, run without interference from other callers. \<open>transport i\<close> is the answer to
  the \<open>i\<close>-th call of \<open>connect\<close> from here on. The loop need not end, so it runs on fuel,
  one unit per test of the loop condition: \<open>Running s\<close> is the state after the last sleep
  when the fuel is used up, \<open>Returned s\<close> the state when the function has returned.
\<close>

fun attemptReconnect ::
  "nat \<Rightarrow> (nat \<Rightarrow> connect_result) \<Rightarrow> ConnectomeClient \<Rightarrow> ConnectomeClient progress" where
  "attemptReconnect 0 transport s = Running s"
| "attemptReconnect (Suc fuel) transport s =
     (if \<not> reconnecting s then Returned s
      else case reconnect_body (transport 0) s of
             Returned s' \<Rightarrow> Returned s'
           | Running s' \<Rightarrow> attemptReconnect fuel (\<lambda>i. transport (Suc i)) s'
           | Threw s' \<Rightarrow> Threw s')"

definition handleDisconnect ::
  "nat \<Rightarrow> (nat \<Rightarrow> connect_result) \<Rightarrow> ConnectomeClient \<Rightarrow> ConnectomeClient progress" where
  "handleDisconnect fuel transport s =
     (if reconnecting s then Returned s
      else case emit ''disconnected'' (s\<lparr> connected := False, reconnecting := True \<rparr>) of
             Inr s' \<Rightarrow> attemptReconnect fuel transport s'
           | Inl e \<Rightarrow> Threw (s\<lparr> connected := False, reconnecting := True \<rparr>))"

text \<open>
  The handler that \<^verbatim>\<open>subscribe\<close> installs for the stream's \<^verbatim>\<open>error\<close> event. When
  \<^verbatim>\<open>this.emit('error', error)\<close> throws, the exception leaves the handler before
  \<^verbatim>\<open>handleDisconnect\<close> is called.
\<close>

definition CANCELLED :: int where
  "CANCELLED = 1"

definition UNAVAILABLE :: int where
  "UNAVAILABLE = 14"

definition on_stream_error ::
  "nat \<Rightarrow> (nat \<Rightarrow> connect_result) \<Rightarrow> int \<Rightarrow> ConnectomeClient \<Rightarrow> ConnectomeClient progress" where
  "on_stream_error fuel transport code s =
     (if code \<noteq> CANCELLED
      then (case emit ''error'' s of
              Inr s' \<Rightarrow> handleDisconnect fuel transport s'
            | Inl e \<Rightarrow> Threw s)
      else Returned s)"

definition state_of :: "'a progress \<Rightarrow> 'a" where
  "state_of p = (case p of Returned s \<Rightarrow> s | Running s \<Rightarrow> s | Threw s \<Rightarrow> s)"

definition connect_calls :: "effect list \<Rightarrow> nat" where
  "connect_calls es = length (filter (\<lambda>e. e = ConnectCall) es)"

definition emitted :: "string \<Rightarrow> effect list \<Rightarrow> nat" where
  "emitted name es = length (filter (\<lambda>e. e = Emit name) es)"

text \<open>
  A client as it is when a stream error arrives: constructed, connected and subscribed.
  The owner of \<open>subscribed_client\<close> has registered a listener for \<^verbatim>\<open>error\<close> after the
  construction; the owner of \<open>unguarded_client\<close> has not.
\<close>

definition subscribed_client :: "ConnectomeClientConfig \<Rightarrow> ConnectomeClient" where
  "subscribed_client cfg =
     (case connect Ready (addListener ''error'' (new_ConnectomeClient cfg)) of
        Inr s \<Rightarrow> s\<lparr> subscriptionStream := Some 0 \<rparr>
      | Inl s \<Rightarrow> s)"

definition unguarded_client :: "ConnectomeClientConfig \<Rightarrow> ConnectomeClient" where
  "unguarded_client cfg =
     (case connect Ready (new_ConnectomeClient cfg) of
        Inr s \<Rightarrow> s\<lparr> subscriptionStream := Some 0 \<rparr>
      | Inl s \<Rightarrow> s)"

definition example_config :: "int option \<Rightarrow> ConnectomeClientConfig" where
  "example_config n =
     \<lparr> cfg_host = ''localhost'', cfg_port = None, cfg_clientId = ''axon'',
       cfg_reconnectInterval = None, cfg_maxReconnectAttempts = n \<rparr>"

text \<open>
  The state used below for a client whose reconnect loop sleeps after its first failed
  attempt: a subscribed client with the default settings and a listener for \<^verbatim>\<open>error\<close>
  received a stream error, and the transport refused the connection once.
\<close>

definition sleeping_client :: ConnectomeClient where
  "sleeping_client =
     state_of (on_stream_error 1 (\<lambda>i. WaitError) UNAVAILABLE (subscribed_client (example_config None)))"

section \<open>Auxiliary notions for the proofs\<close>








section \<open>Verification: JSON text\<close>





































lemma skip_ws_nonws: "\<not> is_ws c \<Longrightarrow> skip_ws (c # r) = c # r"
  by (simp add: skip_ws_def)




















declare parse_value.simps [simp del] parse_elems.simps [simp del] parse_members.simps [simp del]



section \<open>Verification: event serialization\<close>





lemma obj_update_fresh: "k \<notin> fst ` set acc \<Longrightarrow> obj_update k v acc = acc @ [(k, v)]"
  by (induction acc) auto

text \<open>
  On distinct keys other than \<^verbatim>\<open>__proto__\<close> the assignment loop copies the entries in
  order.
\<close>

lemma foldl_obj_set_plain:
  "distinct (map fst acc @ map fst kvs) \<Longrightarrow> ''__proto__'' \<notin> fst ` set kvs \<Longrightarrow>
   foldl (\<lambda>obj (k, v). obj_set k (g v) obj) acc kvs = acc @ map (\<lambda>(k, v). (k, g v)) kvs"
proof (induction kvs arbitrary: acc)
  case Nil
  then show ?case by simp
next
  case (Cons kv kvs)
  obtain k v where kv: "kv = (k, v)" by (cases kv)
  have fresh: "k \<notin> fst ` set acc" and k: "k \<noteq> ''__proto__''"
    using Cons.prems kv by auto
  have step: "obj_set k (g v) acc = acc @ [(k, g v)]"
    using fresh k by (simp add: obj_set_def obj_update_fresh)
  have "foldl (\<lambda>obj (k, v). obj_set k (g v) obj) (acc @ [(k, g v)]) kvs
      = (acc @ [(k, g v)]) @ map (\<lambda>(k, v). (k, g v)) kvs"
    by (rule Cons.IH) (use Cons.prems kv in auto)
  with step kv show ?case by simp
qed

lemma encode_entries_plain:
  "plain_keys m \<Longrightarrow> encode_entries m = map (\<lambda>(k, v). (k, value_text v)) m"
  using foldl_obj_set_plain [of "[]" m value_text]
  by (simp add: encode_entries_def plain_keys_def)

lemma decode_entries_plain:
  "plain_keys m \<Longrightarrow> decode_entries m = map (\<lambda>(k, t). (k, text_value t)) m"
  using foldl_obj_set_plain [of "[]" m text_value]
  by (simp add: decode_entries_def plain_keys_def)

lemma plain_keys_map: "plain_keys (map (\<lambda>(k, v). (k, g v)) m) = plain_keys m"
  by (simp add: plain_keys_def comp_def case_prod_unfold)

lemma decode_encode_entries:
  assumes "plain_keys m"
  shows "decode_entries (encode_entries m) = map (\<lambda>(k, v). (k, text_value (value_text v))) m"
proof -
  have "plain_keys (map (\<lambda>(k, v). (k, value_text v)) m)"
    using assms by (simp only: plain_keys_map)
  then have "decode_entries (map (\<lambda>(k, v). (k, value_text v)) m)
      = map (\<lambda>(k, t). (k, text_value t)) (map (\<lambda>(k, v). (k, value_text v)) m)"
    by (rule decode_entries_plain)
  also have "\<dots> = map (\<lambda>(k, v). (k, text_value (value_text v))) m"
    by (simp add: comp_def case_prod_unfold)
  finally show ?thesis
    by (simp only: encode_entries_plain [OF assms])
qed









text \<open>
  What the round trip does to each metadata value: a value that is not a string passes
  through its JSON text; a string is stored as it is and parsed on the way back.
\<close>

lemma metadata_roundtrip_general:
  assumes "metadata e = Some m" "m \<noteq> []" "plain_keys m"
  shows "metadata (protoToEvent (eventToProto e))
     = Some (map (\<lambda>(k, v). (k, text_value (value_text v))) m)"
  using assms
  by (simp add: protoToEvent_def eventToProto_def Let_def decode_encode_entries encode_optional_def)




text \<open>
  Claim C9. \<^verbatim>\<open>PRIORITY_NORMAL\<close> is the ordinal 0; an event without priority is encoded
  with wire priority 0; the wire priority 0 decodes to \<^verbatim>\<open>normal\<close>, so the event comes back
  with priority \<^verbatim>\<open>normal\<close>; \<^verbatim>\<open>immediate\<close> is encoded as 3 and \<^verbatim>\<open>high\<close> as 2.
\<close>

theorem priority_normal_is_wire_default:
  "PRIORITY_NORMAL = 0
   \<and> pe_priority (eventToProto (e\<lparr> priority := None \<rparr>)) = 0
   \<and> protoToPriority 0 = ''normal''
   \<and> priority (protoToEvent (eventToProto (e\<lparr> priority := None \<rparr>))) = Some ''normal''
   \<and> priorityToProto (Some ''immediate'') = 3
   \<and> priorityToProto (Some ''high'') = 2"
  by (simp add: eventToProto_def protoToEvent_def priorityToProto_def protoToPriority_def
      PRIORITY_NORMAL_def PRIORITY_LOW_def PRIORITY_HIGH_def PRIORITY_IMMEDIATE_def Let_def)

section \<open>Verification: facet serialization\<close>













section \<open>Verification: attachment handling\<close>

lemma map_of_obj_update: "map_of (obj_update k v kvs) = (map_of kvs)(k \<mapsto> v)"
  by (induction kvs) (auto simp: fun_eq_iff)

lemma obj_get_obj_set_same: "k \<noteq> ''__proto__'' \<Longrightarrow> obj_get (obj_set k v obj) k = Some v"
  by (simp add: obj_get_def obj_set_def map_of_obj_update)

lemma obj_get_obj_set_other: "k \<noteq> k' \<Longrightarrow> obj_get (obj_set k' v obj) k = obj_get obj k"
  by (simp add: obj_get_def obj_set_def map_of_obj_update)

lemma Number_toString_threshold_succ: "Number_toString 10 1048577 = ''1048577''"
  by code_simp

text \<open>
  Claim C7. A payload of exactly the inline threshold, 1048576 bytes, is carried in
  \<^verbatim>\<open>inlineData\<close>, with the size recorded and the metadata left as given. A payload of
  1048577 bytes is not embedded (neither inline data nor a URL is set) and its metadata
  has \<^verbatim>\<open>requiresUpload\<close> equal to \<^verbatim>\<open>true\<close> and \<^verbatim>\<open>originalSize\<close> equal to the decimal
  text of its byte length.
\<close>

theorem createAttachment_boundary:
  "(length data = 1048576 \<longrightarrow>
      pa_inlineData (createAttachment now rnd36 data contentType filename meta) = Some data
    \<and> pa_sizeBytes (createAttachment now rnd36 data contentType filename meta) = 1048576
    \<and> pa_metadata (createAttachment now rnd36 data contentType filename meta)
        = (case meta of None \<Rightarrow> [] | Some m \<Rightarrow> m))
   \<and> (length data = 1048577 \<longrightarrow>
      pa_inlineData (createAttachment now rnd36 data contentType filename meta) = None
    \<and> pa_url (createAttachment now rnd36 data contentType filename meta) = None
    \<and> obj_get (pa_metadata (createAttachment now rnd36 data contentType filename meta))
        ''requiresUpload'' = Some ''true''
    \<and> obj_get (pa_metadata (createAttachment now rnd36 data contentType filename meta))
        ''originalSize'' = Some ''1048577'')"
  by (simp add: createAttachment_def shouldInlineAttachment_def MAX_INLINE_SIZE_def Let_def
      obj_get_obj_set_same obj_get_obj_set_other Number_toString_threshold_succ)


lemma length_zero_bytes: "length (zero_bytes n) = n"
  by (simp add: zero_bytes_def)

text \<open>
  The boundary theorem applied to payloads of 1048576 and of 1048577 zero bytes.
\<close>

theorem createAttachment_boundary_witness:
  "length (zero_bytes 1048576) = 1048576
   \<and> pa_inlineData (createAttachment 0 [] (zero_bytes 1048576) ''image/png'' None None)
       = Some (zero_bytes 1048576)
   \<and> length (zero_bytes 1048577) = 1048577
   \<and> pa_inlineData (createAttachment 0 [] (zero_bytes 1048577) ''image/png'' None None) = None
   \<and> obj_get (pa_metadata (createAttachment 0 [] (zero_bytes 1048577) ''image/png'' None None))
        ''originalSize'' = Some ''1048577''"
  using createAttachment_boundary [of "zero_bytes 1048576" 0 "[]" "''image/png''" None None]
        createAttachment_boundary [of "zero_bytes 1048577" 0 "[]" "''image/png''" None None]
  by (simp add: length_zero_bytes)

lemma foldl_chunk_lengths:
  "foldl (\<lambda>sum chunk. sum + length chunk) a chunks = a + sum_list (map length chunks)"
  by (induction chunks arbitrary: a) auto

lemma assemble_loop_concat:
  "length done = offset \<Longrightarrow> length rest = sum_list (map length chunks) \<Longrightarrow>
   assemble_loop chunks (done @ rest) offset = Inr (done @ concat chunks)"
proof (induction chunks arbitrary: "done" rest offset)
  case Nil
  then show ?case by simp
next
  case (Cons chunk chunks)
  have fits: "\<not> length (done @ rest) < offset + length chunk"
    using Cons.prems by simp
  have set_eq: "Uint8Array_set (done @ rest) chunk offset
      = Inr ((done @ chunk) @ drop (length chunk) rest)"
    using Cons.prems by (simp add: Uint8Array_set_def)
  have "assemble_loop chunks ((done @ chunk) @ drop (length chunk) rest) (offset + length chunk)
      = Inr ((done @ chunk) @ concat chunks)"
    by (rule Cons.IH) (use Cons.prems in simp_all)
  with set_eq show ?case by simp
qed

text \<open>
  Claim C5, as the code has it. \<^verbatim>\<open>assembleChunks\<close> takes the chunks and nothing else: the
  result buffer is sized by the sum of the chunk lengths, so every copy fits, no RangeError
  is raised, and the function returns the concatenation of the chunks in received order
  for every list of chunks. No expected size is compared and no reassembly is rejected.
\<close>

theorem assembleChunks_concat: "assembleChunks chunks = Inr (concat chunks)"
  using assemble_loop_concat [of "[]" 0 "replicate (sum_list (map length chunks)) 0" chunks]
  by (simp add: assembleChunks_def foldl_chunk_lengths)

text \<open>
  Claim C5 as stated fails: two chunks of 3 bytes in total are reassembled and returned
  although the payload was expected to have 7 bytes.
\<close>

theorem assembleChunks_no_size_check_counterexample:
  "sum_list (map length [[1, 2], [3 :: byte]]) \<noteq> 7
   \<and> assembleChunks [[1, 2], [3]] = Inr [1, 2, 3]"
  by (simp add: assembleChunks_def Uint8Array_set_def)

text \<open>
  Claim C6 at the payload \<^verbatim>\<open>abc\<close>. The product \<^verbatim>\<open>hash * 16777619\<close> exceeds \<open>2 ^ 53\<close> and
  is rounded before it is reduced to 32 bits, so the code returns \<^verbatim>\<open>1a47e90c\<close> where the
  checksum of the specification (XOR, then multiplication modulo \<open>2 ^ 32\<close>) is
  \<^verbatim>\<open>1a47e90b\<close>.
\<close>

theorem calculateChecksum_not_fnv1a:
  "calculateChecksum [0x61, 0x62, 0x63] = ''1a47e90c''
   \<and> spec_checksum_text [0x61, 0x62, 0x63] = ''1a47e90b''"
  by code_simp

text \<open>
  The second half of claim C6 holds: a payload verifies against its own checksum.
\<close>

lemma verifyChecksum_own: "verifyChecksum data (calculateChecksum data)"
  by (simp add: verifyChecksum_def)

section \<open>Verification: client session\<close>

text \<open>
  \<^verbatim>\<open>disconnect\<close> does not write the \<^verbatim>\<open>reconnecting\<close> flag.
\<close>

lemma emit_other:
  "name \<noteq> ''error'' \<Longrightarrow> emit name s = Inr (s\<lparr> trace := trace s @ [Emit name] \<rparr>)"
  by (simp add: emit_def)

lemma emit_error_listened:
  "0 < errorListeners s \<Longrightarrow> emit ''error'' s = Inr (s\<lparr> trace := trace s @ [Emit ''error''] \<rparr>)"
  by (simp add: emit_def)

lemma emit_error_unhandled:
  "errorListeners s = 0 \<Longrightarrow> emit ''error'' s = Inl UnhandledError"
  by (simp add: emit_def)

lemma disconnect_reconnecting: "reconnecting (disconnect s) = reconnecting s"
  by (simp add: disconnect_def emit_other Let_def)

lemma sleeping_client_eq:
  "sleeping_client =
     \<lparr> config = \<lparr> host = ''localhost'', port = 50051, clientId = ''axon'',
                   reconnectInterval = 5000, maxReconnectAttempts = - 1 \<rparr>,
       client = Some (), connected = False, reconnecting = True, reconnectAttempts = 1,
       subscriptionStream = Some 0, errorListeners = 1,
       trace = [ConnectCall, Emit ''connected'', Emit ''error'', Emit ''disconnected'',
                ConnectCall, Sleep 5000] \<rparr>"
  by (simp add: sleeping_client_def on_stream_error_def handleDisconnect_def subscribed_client_def
      example_config_def new_ConnectomeClient_def addListener_def connect_def emit_def
      reconnect_body_def or_number_def state_of_def UNAVAILABLE_def CANCELLED_def Let_def)

text \<open>
  Claim C3 at a client whose reconnect loop sleeps between attempts. \<^verbatim>\<open>disconnect\<close>
  cancels the stream, closes the transport and emits \<^verbatim>\<open>disconnected\<close>, but the flag
  \<^verbatim>\<open>reconnecting\<close> is still set afterwards; when the sleep ends the loop passes its test,
  calls \<^verbatim>\<open>connect\<close> again and, the transport being ready, leaves the client connected.
\<close>

theorem disconnect_leaves_reconnect_loop_running:
  "reconnecting sleeping_client
   \<and> reconnecting (disconnect sleeping_client)
   \<and> trace (disconnect sleeping_client)
       = trace sleeping_client @ [StreamCancel, ClientClose, Emit ''disconnected'']
   \<and> attemptReconnect 1 (\<lambda>i. Ready) (disconnect sleeping_client)
       = Returned (state_of (attemptReconnect 1 (\<lambda>i. Ready) (disconnect sleeping_client)))
   \<and> connected (state_of (attemptReconnect 1 (\<lambda>i. Ready) (disconnect sleeping_client)))
   \<and> trace (state_of (attemptReconnect 1 (\<lambda>i. Ready) (disconnect sleeping_client)))
       = trace (disconnect sleeping_client) @ [ConnectCall, Emit ''connected'', Emit ''reconnected'']"
  by (simp add: sleeping_client_eq disconnect_def emit_def reconnect_body_def connect_def
      state_of_def Let_def)

text \<open>
  With a negative budget and a transport that never becomes ready the loop never returns:
  after any number of rounds it is still running and has made one connect call and one
  sleep per round.
\<close>

lemma attemptReconnect_unbounded:
  "maxReconnectAttempts (config s) < 0 \<Longrightarrow> reconnecting s \<Longrightarrow> (\<forall>i. transport i \<noteq> Ready) \<Longrightarrow>
   \<exists>s'. attemptReconnect fuel transport s = Running s'
      \<and> trace s' = trace s @ concat (replicate fuel [ConnectCall, Sleep (reconnectInterval (config s))])
      \<and> config s' = config s \<and> reconnecting s'"
proof (induction fuel arbitrary: s transport)
  case 0
  then show ?case by simp
next
  case (Suc fuel)
  obtain s1 where body: "reconnect_body (transport 0) s = Running s1"
    and s1: "trace s1 = trace s @ [ConnectCall, Sleep (reconnectInterval (config s))]"
      "config s1 = config s" "reconnecting s1"
    using Suc.prems
    by (cases "transport 0") (auto simp: reconnect_body_def connect_def Let_def)
  have "\<exists>s'. attemptReconnect fuel (\<lambda>i. transport (Suc i)) s1 = Running s'
      \<and> trace s' = trace s1 @ concat (replicate fuel [ConnectCall, Sleep (reconnectInterval (config s1))])
      \<and> config s' = config s1 \<and> reconnecting s'"
    by (rule Suc.IH) (use Suc.prems s1 in auto)
  then show ?case
    using body s1 Suc.prems(2) by auto
qed

text \<open>
  With a budget that leaves \<open>k\<close> attempts and a transport that never becomes ready the
  loop makes \<open>k\<close> connect calls, each followed by a sleep of the configured interval,
  emits \<^verbatim>\<open>reconnect_failed\<close> once and returns; more fuel changes nothing.
\<close>

lemma attemptReconnect_bounded:
  "maxReconnectAttempts (config s) = reconnectAttempts s + int k \<Longrightarrow> 0 \<le> reconnectAttempts s \<Longrightarrow>
   reconnecting s \<Longrightarrow> (\<forall>i. transport i \<noteq> Ready) \<Longrightarrow> k < fuel \<Longrightarrow>
   \<exists>s'. attemptReconnect fuel transport s = Returned s'
      \<and> trace s' = trace s @ concat (replicate k [ConnectCall, Sleep (reconnectInterval (config s))])
                     @ [Emit ''reconnect_failed'']
      \<and> \<not> reconnecting s' \<and> connected s' = connected s"
proof (induction k arbitrary: s transport fuel)
  case 0
  then obtain f where "fuel = Suc f" by (cases fuel) auto
  with 0 show ?case by (simp add: reconnect_body_def emit_other)
next
  case (Suc k)
  then obtain f where fuel: "fuel = Suc f" and kf: "k < f" by (cases fuel) auto
  obtain s1 where body: "reconnect_body (transport 0) s = Running s1"
    and s1: "trace s1 = trace s @ [ConnectCall, Sleep (reconnectInterval (config s))]"
      "config s1 = config s" "reconnecting s1" "reconnectAttempts s1 = reconnectAttempts s + 1"
      "connected s1 = connected s"
    using Suc.prems
    by (cases "transport 0") (auto simp: reconnect_body_def connect_def Let_def)
  have "\<exists>s'. attemptReconnect f (\<lambda>i. transport (Suc i)) s1 = Returned s'
      \<and> trace s' = trace s1 @ concat (replicate k [ConnectCall, Sleep (reconnectInterval (config s1))])
                     @ [Emit ''reconnect_failed'']
      \<and> \<not> reconnecting s' \<and> connected s' = connected s1"
    by (rule Suc.IH) (use Suc.prems s1 kf in auto)
  then show ?case
    using body s1 Suc.prems(3) fuel by auto
qed

lemma connect_calls_append: "connect_calls (xs @ ys) = connect_calls xs + connect_calls ys"
  by (simp add: connect_calls_def)

lemma connect_calls_rounds:
  "connect_calls (concat (replicate k [ConnectCall, Sleep d])) = k"
  by (induction k) (simp_all add: connect_calls_def)

lemma emitted_append: "emitted n (xs @ ys) = emitted n xs + emitted n ys"
  by (simp add: emitted_def)

lemma emitted_rounds: "emitted n (concat (replicate k [ConnectCall, Sleep d])) = 0"
  by (induction k) (simp_all add: emitted_def)

lemma subscribed_client_facts:
  "trace (subscribed_client cfg) = [ConnectCall, Emit ''connected'']"
  "reconnecting (subscribed_client cfg) = False"
  "reconnectAttempts (subscribed_client cfg) = 0"
  "maxReconnectAttempts (config (subscribed_client cfg)) = or_number (cfg_maxReconnectAttempts cfg) (- 1)"
  "reconnectInterval (config (subscribed_client cfg)) = or_number (cfg_reconnectInterval cfg) 5000"
  "errorListeners (subscribed_client cfg) = 1"
  by (simp_all add: subscribed_client_def connect_def new_ConnectomeClient_def addListener_def
      emit_other Let_def)

text \<open>
  The state in which \<^verbatim>\<open>handleDisconnect\<close> starts the loop after a stream error on a client
  with a listener for \<^verbatim>\<open>error\<close>.
\<close>

lemma on_stream_error_listened:
  assumes "code \<noteq> CANCELLED" "0 < errorListeners s" "\<not> reconnecting s"
  shows "on_stream_error fuel transport code s
     = attemptReconnect fuel transport
         (s\<lparr> connected := False, reconnecting := True,
             trace := trace s @ [Emit ''error'', Emit ''disconnected''] \<rparr>)"
  using assms
  by (simp add: on_stream_error_def handleDisconnect_def emit_error_listened emit_other)

text \<open>
  The reconnect budget for a configured \<^verbatim>\<open>maxReconnectAttempts\<close> of at least 1.
\<close>

lemma reconnect_budget_positive:
  assumes "cfg_maxReconnectAttempts cfg = Some n" "0 < n" "\<forall>i. transport i \<noteq> Ready"
    "code \<noteq> CANCELLED" "nat n < fuel"
  shows "\<exists>s'. on_stream_error fuel transport code (subscribed_client cfg) = Returned s'
      \<and> trace s' = trace (subscribed_client cfg) @ [Emit ''error'', Emit ''disconnected'']
           @ concat (replicate (nat n) [ConnectCall, Sleep (or_number (cfg_reconnectInterval cfg) 5000)])
           @ [Emit ''reconnect_failed'']"
proof -
  let ?c = "subscribed_client cfg"
  let ?s = "?c\<lparr> connected := False, reconnecting := True,
               trace := trace ?c @ [Emit ''error'', Emit ''disconnected''] \<rparr>"
  have start: "on_stream_error fuel transport code ?c = attemptReconnect fuel transport ?s"
    by (rule on_stream_error_listened) (use assms(4) in \<open>simp_all add: subscribed_client_facts\<close>)
  have "\<exists>s'. attemptReconnect fuel transport ?s = Returned s'
      \<and> trace s' = trace ?s @ concat (replicate (nat n) [ConnectCall, Sleep (reconnectInterval (config ?s))])
                     @ [Emit ''reconnect_failed'']
      \<and> \<not> reconnecting s' \<and> connected s' = connected ?s"
    by (rule attemptReconnect_bounded)
       (use assms in \<open>auto simp: subscribed_client_facts or_number_def\<close>)
  then show ?thesis
    by (auto simp: start subscribed_client_facts)
qed

text \<open>
  Claim C4 at the budget 0. The constructor stores \<^verbatim>\<open>config.maxReconnectAttempts || -1\<close>,
  which turns the budget 0 into \<open>-1\<close>, the value for unlimited retries. After a stream
  error and a transport that always fails, the loop is still running after any number of
  rounds: it has made one connect call per round (plus the initial connect) and has emitted
  no \<^verbatim>\<open>reconnect_failed\<close>.
\<close>

theorem reconnect_budget_zero_is_unbounded:
  "\<exists>s'. on_stream_error fuel (\<lambda>i. WaitError) UNAVAILABLE (subscribed_client (example_config (Some 0)))
         = Running s'
      \<and> maxReconnectAttempts (config s') = - 1
      \<and> connect_calls (trace s') = 1 + fuel
      \<and> emitted ''reconnect_failed'' (trace s') = 0"
proof -
  let ?c = "subscribed_client (example_config (Some 0))"
  let ?s = "?c\<lparr> connected := False, reconnecting := True,
               trace := trace ?c @ [Emit ''error'', Emit ''disconnected''] \<rparr>"
  have cfg: "maxReconnectAttempts (config ?s) = - 1"
    by (simp add: subscribed_client_facts example_config_def or_number_def)
  have "\<exists>s'. attemptReconnect fuel (\<lambda>i. WaitError) ?s = Running s'
      \<and> trace s' = trace ?s @ concat (replicate fuel [ConnectCall, Sleep (reconnectInterval (config ?s))])
      \<and> config s' = config ?s \<and> reconnecting s'"
    by (rule attemptReconnect_unbounded)
       (simp_all add: subscribed_client_facts example_config_def or_number_def)
  then obtain s' where run: "attemptReconnect fuel (\<lambda>i. WaitError) ?s = Running s'"
    and tr: "trace s' = trace ?s @ concat (replicate fuel [ConnectCall, Sleep (reconnectInterval (config ?s))])"
    and c: "config s' = config ?s"
    by blast
  have "on_stream_error fuel (\<lambda>i. WaitError) UNAVAILABLE ?c = attemptReconnect fuel (\<lambda>i. WaitError) ?s"
    by (rule on_stream_error_listened)
       (simp_all add: UNAVAILABLE_def CANCELLED_def subscribed_client_facts)
  with run have "on_stream_error fuel (\<lambda>i. WaitError) UNAVAILABLE ?c = Running s'"
    by simp
  moreover have "connect_calls (trace ?s) = 1"
    by (simp add: subscribed_client_facts connect_calls_def)
  then have "connect_calls (trace s') = 1 + fuel"
    by (simp only: tr connect_calls_append connect_calls_rounds)
  moreover have "emitted ''reconnect_failed'' (trace ?s) = 0"
    by (simp add: subscribed_client_facts emitted_def)
  then have "emitted ''reconnect_failed'' (trace s') = 0"
    by (simp only: tr emitted_append emitted_rounds)
  ultimately show ?thesis using c cfg by simp
qed

lemma reconnect_body_trace:
  "\<exists>ext. trace (state_of (reconnect_body r s)) = trace s @ ext \<and> Emit ''error'' \<notin> set ext"
  by (cases r) (auto simp: reconnect_body_def connect_def emit_def state_of_def Let_def)

lemma attemptReconnect_trace:
  "\<exists>ext. trace (state_of (attemptReconnect fuel transport s)) = trace s @ ext
     \<and> Emit ''error'' \<notin> set ext"
proof (induction fuel arbitrary: s transport)
  case 0
  then show ?case by (simp add: state_of_def)
next
  case (Suc fuel)
  show ?case
  proof (cases "reconnecting s")
    case False
    then show ?thesis by (simp add: state_of_def)
  next
    case True
    obtain ext1 where e1: "trace (state_of (reconnect_body (transport 0) s)) = trace s @ ext1"
      "Emit ''error'' \<notin> set ext1"
      using reconnect_body_trace by blast
    show ?thesis
    proof (cases "reconnect_body (transport 0) s")
      case (Returned s')
      with True e1 show ?thesis by (auto simp: state_of_def)
    next
      case (Running s')
      obtain ext2 where e2:
        "trace (state_of (attemptReconnect fuel (\<lambda>i. transport (Suc i)) s')) = trace s' @ ext2"
        "Emit ''error'' \<notin> set ext2"
        using Suc.IH by blast
      have "trace s' = trace s @ ext1" using e1 Running by (simp add: state_of_def)
      with True Running e1 e2 show ?thesis by auto
    next
      case (Threw s')
      with True e1 show ?thesis by (auto simp: state_of_def)
    qed
  qed
qed

lemma handleDisconnect_trace:
  "\<exists>ext. trace (state_of (handleDisconnect fuel transport s)) = trace s @ ext
     \<and> Emit ''error'' \<notin> set ext"
proof (cases "reconnecting s")
  case True
  then show ?thesis by (simp add: handleDisconnect_def state_of_def)
next
  case False
  let ?s = "s\<lparr> connected := False, reconnecting := True, trace := trace s @ [Emit ''disconnected''] \<rparr>"
  obtain ext where "trace (state_of (attemptReconnect fuel transport ?s)) = trace ?s @ ext"
    "Emit ''error'' \<notin> set ext"
    using attemptReconnect_trace by blast
  with False show ?thesis by (auto simp: handleDisconnect_def emit_other)
qed

text \<open>
  What claim C10 says, for a client that has a listener for \<^verbatim>\<open>error\<close>. A stream error
  with code CANCELLED changes nothing: no notification, no reconnect. Any other code emits
  \<^verbatim>\<open>error\<close> and then runs \<^verbatim>\<open>handleDisconnect\<close> on the state after the emission;
  everything the reconnect path does comes after that notification in the trace, and the
  number of \<^verbatim>\<open>error\<close> notifications grows by exactly one.
\<close>

lemma stream_error_cancelled: "on_stream_error fuel transport CANCELLED s = Returned s"
  by (simp add: on_stream_error_def)

lemma stream_error_listened:
  assumes "code \<noteq> CANCELLED" "0 < errorListeners s"
  shows "on_stream_error fuel transport code s
           = handleDisconnect fuel transport (s\<lparr> trace := trace s @ [Emit ''error''] \<rparr>)"
    and "\<exists>ext. trace (state_of (on_stream_error fuel transport code s))
                  = trace s @ [Emit ''error''] @ ext
              \<and> Emit ''error'' \<notin> set ext"
    and "emitted ''error'' (trace (state_of (on_stream_error fuel transport code s)))
          = emitted ''error'' (trace s) + 1"
proof -
  let ?e = "s\<lparr> trace := trace s @ [Emit ''error''] \<rparr>"
  show run: "on_stream_error fuel transport code s = handleDisconnect fuel transport ?e"
    using assms by (simp add: on_stream_error_def emit_error_listened)
  obtain ext where ext:
    "trace (state_of (handleDisconnect fuel transport ?e)) = trace ?e @ ext"
    "Emit ''error'' \<notin> set ext"
    using handleDisconnect_trace by blast
  then show "\<exists>ext. trace (state_of (on_stream_error fuel transport code s))
                  = trace s @ [Emit ''error''] @ ext
              \<and> Emit ''error'' \<notin> set ext"
    by (auto simp: run)
  show "emitted ''error'' (trace (state_of (on_stream_error fuel transport code s)))
          = emitted ''error'' (trace s) + 1"
    using ext by (auto simp: run emitted_def filter_empty_conv)
qed

lemma unguarded_client_eq:
  "unguarded_client (example_config None) =
     \<lparr> config = \<lparr> host = ''localhost'', port = 50051, clientId = ''axon'',
                   reconnectInterval = 5000, maxReconnectAttempts = - 1 \<rparr>,
       client = Some (), connected = True, reconnecting = False, reconnectAttempts = 0,
       subscriptionStream = Some 0, errorListeners = 0,
       trace = [ConnectCall, Emit ''connected''] \<rparr>"
  by (simp add: unguarded_client_def example_config_def new_ConnectomeClient_def connect_def
      emit_def or_number_def Let_def)

text \<open>
  Claim C10 at a client as the constructor builds it, connected and subscribed, whose
  owner has registered no listener for \<^verbatim>\<open>error\<close>. On a stream error with the code
  UNAVAILABLE the emission of \<^verbatim>\<open>error\<close> throws, the exception leaves the handler, and
  \<^verbatim>\<open>handleDisconnect\<close> is never reached: the state is unchanged, the flag
  \<^verbatim>\<open>reconnecting\<close> is not set, the client still counts as connected, no
  \<^verbatim>\<open>disconnected\<close> is emitted and no connect attempt is made, whatever the transport
  would answer and however long one waits. No listener has received an \<^verbatim>\<open>error\<close>
  notification either.
\<close>

theorem stream_error_unhandled_skips_reconnect:
  "errorListeners (new_ConnectomeClient (example_config None)) = 0
   \<and> UNAVAILABLE \<noteq> CANCELLED
   \<and> on_stream_error fuel transport UNAVAILABLE (unguarded_client (example_config None))
       = Threw (unguarded_client (example_config None))
   \<and> \<not> reconnecting (unguarded_client (example_config None))
   \<and> connected (unguarded_client (example_config None))
   \<and> trace (unguarded_client (example_config None)) = [ConnectCall, Emit ''connected'']
   \<and> emitted ''error'' (trace (unguarded_client (example_config None))) = 0
   \<and> emitted ''disconnected'' (trace (unguarded_client (example_config None))) = 0
   \<and> connect_calls (trace (unguarded_client (example_config None))) = 1"
  by (simp add: unguarded_client_eq on_stream_error_def emit_def UNAVAILABLE_def CANCELLED_def
      new_ConnectomeClient_def emitted_def connect_calls_def)

end
